theory Spec2Isabelle
  imports Main "HOL-Library.AList" "HOL-Library.Product_Lexorder" "HOL-Library.Multiset"
begin

section \<open>Python text\<close>

text \<open>
  A Python \<open>str\<close> is a sequence of Unicode code points, modelled as the list of them.
  \<open>lit\<close> gives the value of a string literal of the source, whose characters are all
  ASCII.
\<close>

type_synonym str = "nat list"

definition lit :: "string \<Rightarrow> str" where
  "lit s = map of_char s"

text \<open>
  The code points that \<open>str.isspace\<close>, \<open>str.strip\<close> and \<open>str.split\<close> take for whitespace:
  U+0009 to U+000D, U+001C to U+0020, U+0085, U+00A0, U+1680, U+2000 to U+200A, U+2028,
  U+2029, U+202F, U+205F and U+3000.
\<close>

definition isspace :: "nat \<Rightarrow> bool" where
  "isspace c =
     ((0x09 \<le> c \<and> c \<le> 0x0D) \<or> (0x1C \<le> c \<and> c \<le> 0x20) \<or> c = 0x85 \<or> c = 0xA0
      \<or> c = 0x1680 \<or> (0x2000 \<le> c \<and> c \<le> 0x200A) \<or> c = 0x2028 \<or> c = 0x2029
      \<or> c = 0x202F \<or> c = 0x205F \<or> c = 0x3000)"

definition strip :: "str \<Rightarrow> str" where
  "strip s = rev (dropWhile isspace (rev (dropWhile isspace s)))"

text \<open>
  \<open>str.split()\<close> without arguments: the maximal runs of non-whitespace code points, in
  order. \<open>split_aux cur s\<close> scans \<open>s\<close> with \<open>cur\<close> the token collected so far.
\<close>

fun split_aux :: "str \<Rightarrow> str \<Rightarrow> str list" where
  "split_aux cur [] = (if cur = [] then [] else [cur])"
| "split_aux cur (c # cs) =
     (if isspace c then (if cur = [] then split_aux [] cs else cur # split_aux [] cs)
      else split_aux (cur @ [c]) cs)"

definition split :: "str \<Rightarrow> str list" where
  "split s = split_aux [] s"

text \<open>\<open>sep.join(xs)\<close>.\<close>

fun join :: "str \<Rightarrow> str list \<Rightarrow> str" where
  "join sep [] = []"
| "join sep [x] = x"
| "join sep (x # y # ys) = x @ sep @ join sep (y # ys)"

text \<open>\<open>str(n)\<close> for a non-negative integer: its decimal digits, U+0030 to U+0039.\<close>

fun str_nat :: "nat \<Rightarrow> str" where
  "str_nat n = (if n < 10 then [48 + n] else str_nat (n div 10) @ [48 + n mod 10])"

declare str_nat.simps [simp del]

text \<open>
  The case mappings \<open>str.lower\<close> and \<open>str.upper\<close> follow the Unicode tables of the
  interpreter, and a price is a Python float: \<open>float(s)\<close> raises \<open>ValueError\<close> on a text
  that is no number (\<open>None\<close> here), and an f-string formats a float. These four built-ins
  are parameters of the model, and \<open>'f\<close> stands for the floats.
\<close>

record 'f builtins =
  str_lower :: "str \<Rightarrow> str"
  str_upper :: "str \<Rightarrow> str"
  float_of :: "str \<Rightarrow> 'f option"
  format_float :: "'f \<Rightarrow> str"

section \<open>The stock list and its chat interpreter (backend)\<close>

text \<open>\<open>Stock\<close> and \<open>ChatResponse\<close> are the pydantic models of the backend.\<close>

record 'f Stock =
  symbol :: str
  name :: str
  price :: 'f
  notes' :: "str option"

record 'f ChatResponse =
  reply :: str
  stocks :: "'f Stock list"

text \<open>
  The module-level dict \<open>_STOCKS\<close>. A Python dict enumerates its keys in insertion order,
  assigning to a key that is present keeps its position, and \<open>del\<close> removes the key: the
  association list operations \<open>AList.update\<close> and \<open>AList.delete\<close> do the same.
\<close>

type_synonym 'f store = "(str \<times> 'f Stock) list"

definition values_of :: "'f store \<Rightarrow> 'f Stock list" where
  "values_of STOCKS = map snd STOCKS"

text \<open>The fixed reply texts. \<open>quoted s\<close> is \<open>s\<close> between two apostrophes.\<close>

definition quoted :: "string \<Rightarrow> str" where
  "quoted s = [0x27] @ lit s @ [0x27]"

definition help_text :: str where
  "help_text = lit ''I support: '' @ quoted ''list'' @ lit '', '' @ quoted ''add SYMBOL NAME PRICE''
     @ lit '', '' @ quoted ''remove SYMBOL'' @ lit '', and '' @ quoted ''update SYMBOL PRICE''
     @ lit ''.''"

definition usage_text :: str where
  "usage_text = lit ''Please type a command like '' @ quoted ''add AAPL Apple 195.3''
     @ lit '' or '' @ quoted ''list'' @ lit ''.''"

definition add_parse_error :: str where
  "add_parse_error =
     lit ''Could not parse price. Use something like '' @ quoted ''add AAPL Apple 195.3''"

definition update_parse_error :: str where
  "update_parse_error =
     lit ''Could not parse price. Use something like '' @ quoted ''update AAPL 200.0''"

definition not_in_list :: "str \<Rightarrow> str" where
  "not_in_list symb = symb @ lit '' is not in your list.''"

text \<open>
  The handler of \<open>POST /chat\<close>. It reads and writes \<open>_STOCKS\<close>, so the model takes the
  store and returns the response together with the store after the call.
\<close>

definition chat :: "'f builtins \<Rightarrow> str \<Rightarrow> 'f store \<Rightarrow> 'f ChatResponse \<times> 'f store" where
  "chat py message STOCKS =
    (let text = strip message;
         lower_text = str_lower py text
     in
     if lower_text = lit ''list'' then
       (\<lparr>reply = lit ''You currently have '' @ str_nat (length STOCKS) @ lit '' stock(s).'',
         stocks = values_of STOCKS\<rparr>, STOCKS)
     else
       let parts = split text in
       if parts = [] then (\<lparr>reply = usage_text, stocks = values_of STOCKS\<rparr>, STOCKS)
       else
         let cmd = str_lower py (hd parts) in
         if cmd = lit ''add'' \<and> length parts \<ge> 4 then
           (let symb = str_upper py (parts ! 1) in
            case float_of py (last parts) of
              None \<Rightarrow> (\<lparr>reply = add_parse_error, stocks = values_of STOCKS\<rparr>, STOCKS)
            | Some p \<Rightarrow>
                let nm = join (lit '' '') (butlast (drop 2 parts));
                    stock = \<lparr>symbol = symb, name = nm, price = p, notes' = None\<rparr>;
                    STOCKS' = AList.update symb stock STOCKS
                in (\<lparr>reply = lit ''Added '' @ symb @ lit '' ('' @ nm @ lit '') at ''
                              @ format_float py p @ lit ''.'',
                     stocks = values_of STOCKS'\<rparr>, STOCKS'))
         else if cmd = lit ''remove'' \<and> length parts = 2 then
           (let symb = str_upper py (parts ! 1) in
            if map_of STOCKS symb = None then
              (\<lparr>reply = not_in_list symb, stocks = values_of STOCKS\<rparr>, STOCKS)
            else
              let STOCKS' = AList.delete symb STOCKS
              in (\<lparr>reply = lit ''Removed '' @ symb @ lit ''.'', stocks = values_of STOCKS'\<rparr>,
                  STOCKS'))
         else if cmd = lit ''update'' \<and> length parts = 3 then
           (let symb = str_upper py (parts ! 1) in
            case map_of STOCKS symb of
              None \<Rightarrow> (\<lparr>reply = not_in_list symb, stocks = values_of STOCKS\<rparr>, STOCKS)
            | Some existing \<Rightarrow>
                (case float_of py (parts ! 2) of
                   None \<Rightarrow> (\<lparr>reply = update_parse_error, stocks = values_of STOCKS\<rparr>, STOCKS)
                 | Some p \<Rightarrow>
                     let updated = existing\<lparr>price := p\<rparr>;
                         STOCKS' = AList.update symb updated STOCKS
                     in (\<lparr>reply = lit ''Updated '' @ symb @ lit '' to '' @ format_float py p
                                   @ lit ''.'',
                          stocks = values_of STOCKS'\<rparr>, STOCKS')))
         else (\<lparr>reply = help_text, stocks = values_of STOCKS\<rparr>, STOCKS))"

text \<open>
  Built-ins to run the interpreter on examples: case mappings that change the letters A to
  Z and a to z only, as \<open>str.lower\<close> and \<open>str.upper\<close> do on ASCII text, and a float parser
  and printer on one-decimal prices, held in tenths.
\<close>

definition ascii_lower :: "str \<Rightarrow> str" where
  "ascii_lower s = map (\<lambda>c. if 65 \<le> c \<and> c \<le> 90 then c + 32 else c) s"

definition ascii_upper :: "str \<Rightarrow> str" where
  "ascii_upper s = map (\<lambda>c. if 97 \<le> c \<and> c \<le> 122 then c - 32 else c) s"

definition demo_float_of :: "str \<Rightarrow> int option" where
  "demo_float_of s =
     (if s = lit ''195.3'' then Some 1953 else if s = lit ''200.0'' then Some 2000 else None)"

definition demo_format :: "int \<Rightarrow> str" where
  "demo_format p = str_nat (nat (p div 10)) @ lit ''.'' @ str_nat (nat (p mod 10))"

definition demo_py :: "int builtins" where
  "demo_py = \<lparr>str_lower = ascii_lower, str_upper = ascii_upper, float_of = demo_float_of,
              format_float = demo_format\<rparr>"

definition demo_store :: "int store" where
  "demo_store =
     [(lit ''AAPL'', \<lparr>symbol = lit ''AAPL'', name = lit ''Apple'', price = 1953,
                      notes' = Some (lit ''keep'')\<rparr>),
      (lit ''TSLA'', \<lparr>symbol = lit ''TSLA'', name = lit ''Tesla'', price = 2000, notes' = None\<rparr>)]"

section \<open>The earnings calendar (scripts/earnings_data)\<close>

subsection \<open>Dates\<close>

text \<open>
  A calendar date is a triple (year, month, day), ordered lexicographically as the dates
  of \<open>datetime\<close> are; \<open>isoformat\<close> writes it as \<open>YYYY-MM-DD\<close>.
\<close>

type_synonym date = "nat \<times> nat \<times> nat"

definition zfill :: "nat \<Rightarrow> str \<Rightarrow> str" where
  "zfill w s = replicate (w - length s) 48 @ s"

definition isoformat :: "date \<Rightarrow> str" where
  "isoformat d = (case d of (y, m, dd) \<Rightarrow>
     zfill 4 (str_nat y) @ lit ''-'' @ zfill 2 (str_nat m) @ lit ''-'' @ zfill 2 (str_nat dd))"

subsection \<open>The data source\<close>

text \<open>
  A call into the provider either raises or returns. A cell of a row is \<open>None\<close>, a value
  that \<open>float\<close> converts, a value on which \<open>float\<close> raises \<open>TypeError\<close> or \<open>ValueError\<close>,
  or a value on which \<open>float\<close> raises another exception (\<open>OverflowError\<close> on the integer
  \<open>10 ** 400\<close>). A row maps the field names it has to cells.
\<close>

datatype 'a attempt = Raises | Returns 'a

datatype 'f cell = PyNone | Convertible 'f | Inconvertible | RaisesOther

type_synonym 'f row = "str \<rightharpoonup> 'f cell"

text \<open>
  What the function reads of a data frame: its \<open>empty\<close> attribute and \<open>iterrows()\<close>, which
  raises on an object that has no such method. Each row comes with its index, given here
  as the outcome of lines 95 to 101 on it: \<open>Some d\<close> when the index yields the date \<open>d\<close>,
  \<open>None\<close> when the conversion raises.
\<close>

record 'f frame =
  df_empty :: bool
  df_iterrows :: "(date option \<times> 'f row) list attempt"

text \<open>
  What the function reads of \<open>yf.Ticker(sym)\<close>: the method \<open>get_earnings_dates(limit)\<close> and
  the attribute \<open>calendar\<close>, read through \<open>getattr(ticker, "calendar", None)\<close>.
\<close>

record 'f ticker =
  get_earnings_dates :: "int \<Rightarrow> 'f frame option attempt"
  calendar :: "'f frame option attempt"

subsection \<open>The result\<close>

record 'f PastEvent =
  date :: str
  eps_estimate :: "'f option"
  eps_actual :: "'f option"
  surprise_percent :: "'f option"

record 'f Entry =
  entry_symbol :: str
  next_earnings_date :: "str option"
  next_earnings_estimate :: "'f option"
  past_earnings :: "'f PastEvent list"

subsection \<open>The body of the function\<close>

text \<open>The argument \<open>symbols\<close> is one string or a list, whose items may be \<open>None\<close>.\<close>

datatype symbols_arg = Single str | Many "str option list"

text \<open>Lines 64 to 69, with \<open>upper\<close> the built-in \<open>str.upper\<close>.\<close>

fun normalize_symbols :: "(str \<Rightarrow> str) \<Rightarrow> str option list \<Rightarrow> str list" where
  "normalize_symbols upper [] = []"
| "normalize_symbols upper (s # rest) =
     (let symb = strip (case s of None \<Rightarrow> [] | Some x \<Rightarrow> x) in
      if symb = [] then normalize_symbols upper rest
      else upper symb # normalize_symbols upper rest)"

text \<open>
  The three loops over candidate field names (lines 123 to 129, 141 to 163) have one shape:
  the result starts as \<open>None\<close>; a key that is absent or maps to \<open>None\<close> is passed over; a
  value that converts ends the loop; a value on which \<open>float\<close> raises \<open>TypeError\<close> or
  \<open>ValueError\<close> is passed over; any other exception of \<open>float\<close> leaves the loop uncaught.
\<close>

fun first_float :: "str list \<Rightarrow> 'f row \<Rightarrow> 'f option attempt" where
  "first_float [] row = Returns None"
| "first_float (key # keys) row =
     (case row key of
        None \<Rightarrow> first_float keys row
      | Some PyNone \<Rightarrow> first_float keys row
      | Some (Convertible v) \<Rightarrow> Returns (Some v)
      | Some Inconvertible \<Rightarrow> first_float keys row
      | Some RaisesOther \<Rightarrow> Raises)"

definition eps_estimate_keys :: "str list" where
  "eps_estimate_keys = map lit [''EPS Estimate'', ''epsestimate'', ''Estimate'', ''estimate'']"

definition eps_actual_keys :: "str list" where
  "eps_actual_keys = map lit [''Reported EPS'', ''reportedEPS'', ''epsactual'', ''actual'']"

definition surprise_keys :: "str list" where
  "surprise_keys = map lit [''Surprise(%)'', ''surprise'', ''surprise_percent'']"

definition default_entry :: "str \<Rightarrow> 'f Entry" where
  "default_entry symb =
     \<lparr>entry_symbol = symb, next_earnings_date = None, next_earnings_estimate = None,
      past_earnings = []\<rparr>"

text \<open>Lines 93 to 103: the rows whose index gave a date.\<close>

fun collect_rows :: "(date option \<times> 'f row) list \<Rightarrow> (date \<times> 'f row) list" where
  "collect_rows [] = []"
| "collect_rows ((None, row) # rest) = collect_rows rest"
| "collect_rows ((Some date_obj, row) # rest) = (date_obj, row) # collect_rows rest"

text \<open>
  Python's sort is stable, as \<open>sort_key\<close> is; with \<open>reverse=True\<close> it orders by descending
  key and still keeps rows of equal key in their given order, which is
  \<open>rev \<circ> sort_key fst \<circ> rev\<close>.
\<close>

definition sorted_desc :: "(date \<times> 'f row) list \<Rightarrow> (date \<times> 'f row) list" where
  "sorted_desc rows = rev (sort_key fst (rev rows))"

text \<open>
  The entry is a dict that the function changes in place, inside the \<open>try\<close> of line 81.
  An exception that the inner handlers do not catch reaches the handler of line 174,
  which logs it; line 177 then appends the entry as it stands. So each of the functions
  below returns the entry as it is when control reaches line 177.

  Lines 136 to 172, the loop over the selected past rows: an event is appended once its
  three fields are extracted.
\<close>

fun append_past :: "'f Entry \<Rightarrow> (date \<times> 'f row) list \<Rightarrow> 'f Entry" where
  "append_past entry [] = entry"
| "append_past entry ((date_obj, row) # rest) =
     (case first_float eps_estimate_keys row of
        Raises \<Rightarrow> entry
      | Returns estimate \<Rightarrow>
          (case first_float eps_actual_keys row of
             Raises \<Rightarrow> entry
           | Returns actual \<Rightarrow>
               (case first_float surprise_keys row of
                  Raises \<Rightarrow> entry
                | Returns surprise_pct \<Rightarrow>
                    append_past
                      (entry\<lparr>past_earnings := past_earnings entry @
                          [\<lparr>date = isoformat date_obj, eps_estimate = estimate,
                            eps_actual = actual, surprise_percent = surprise_pct\<rparr>]\<rparr>)
                      rest)))"

text \<open>Lines 133 to 172.\<close>

definition past_part :: "int \<Rightarrow> (date \<times> 'f row) list \<Rightarrow> 'f Entry \<Rightarrow> 'f Entry" where
  "past_part num past_rows entry =
     (let max_past = max (num - 1) 0 in
      if max_past > 0 \<and> past_rows \<noteq> []
      then append_past entry (take (nat max_past) (sorted_desc past_rows))
      else entry)"

text \<open>Lines 109 to 172 on a non-empty list of rows.\<close>

definition fill_entry :: "date \<Rightarrow> int \<Rightarrow> 'f Entry \<Rightarrow> (date \<times> 'f row) list \<Rightarrow> 'f Entry" where
  "fill_entry today num entry rows0 =
    (let rows = sort_key fst rows0;
         future_rows = filter (\<lambda>(d, r). d \<ge> today) rows;
         past_rows = filter (\<lambda>(d, r). d < today) rows
     in
     case future_rows of
       [] \<Rightarrow> past_part num past_rows entry
     | (next_date, next_row) # _ \<Rightarrow>
         (let entry1 = entry\<lparr>next_earnings_date := Some (isoformat next_date)\<rparr> in
          case first_float eps_estimate_keys next_row of
            Raises \<Rightarrow> entry1
          | Returns est \<Rightarrow> past_part num past_rows (entry1\<lparr>next_earnings_estimate := est\<rparr>)))"

text \<open>
  Lines 82 to 86: the query. When \<open>get_earnings_dates\<close> raises, the ticker's \<open>calendar\<close> is
  read in its place; an exception of \<open>yf.Ticker\<close> or of reading \<open>calendar\<close> leaves the
  inner \<open>try\<close> and reaches the handler of line 174.
\<close>

definition query :: "(str \<Rightarrow> 'f ticker attempt) \<Rightarrow> int \<Rightarrow> str \<Rightarrow> 'f frame option attempt" where
  "query yf_Ticker num symb =
     (case yf_Ticker symb of
        Raises \<Rightarrow> Raises
      | Returns tk \<Rightarrow>
          (case get_earnings_dates tk (max (num + 4) 8) of
             Raises \<Rightarrow> calendar tk
           | Returns df \<Rightarrow> Returns df))"

text \<open>The body of the loop of line 73: the entry appended for one normalized symbol.\<close>

definition symbol_entry ::
  "(str \<Rightarrow> 'f ticker attempt) \<Rightarrow> date \<Rightarrow> int \<Rightarrow> str \<Rightarrow> 'f Entry" where
  "symbol_entry yf_Ticker today num symb =
    (let entry = default_entry symb in
     case query yf_Ticker num symb of
       Raises \<Rightarrow> entry
     | Returns None \<Rightarrow> entry
     | Returns (Some df) \<Rightarrow>
         if df_empty df then entry
         else (case df_iterrows df of
                 Raises \<Rightarrow> entry
               | Returns raw \<Rightarrow>
                   let rows = collect_rows raw in
                   if rows = [] then entry else fill_entry today num entry rows))"

text \<open>
  Lines 53 to 179 after \<open>today = dt.date.today()\<close> has returned \<open>today\<close>, with \<open>yf_Ticker\<close>
  what \<open>yf.Ticker\<close> is.
\<close>

definition calendar_entries ::
  "(str \<Rightarrow> str) \<Rightarrow> (str \<Rightarrow> 'f ticker attempt) \<Rightarrow> date \<Rightarrow> symbols_arg \<Rightarrow> int \<Rightarrow> 'f Entry list" where
  "calendar_entries upper yf_Ticker today symbols num0 =
    (let num = (if num0 \<le> 0 then 1 else num0);
         symbol_list = (case symbols of Single s \<Rightarrow> [Some s] | Many l \<Rightarrow> l);
         normalized_symbols = normalize_symbols upper symbol_list
     in map (symbol_entry yf_Ticker today num) normalized_symbols)"

subsection \<open>The module and the call\<close>

text \<open>
  The module starts with \<open>import datatime as dt\<close> (line 3) and \<open>import yfinance as yf\<close>
  (line 4); the function is defined once both have succeeded. An installation is given by
  what it finds under these two names: for \<open>datatime\<close>, nothing, or a module, given as what
  \<open>dt.date.today()\<close> does there; for \<open>yfinance\<close>, nothing, or what \<open>yf.Ticker\<close> is. The
  name of the standard library's module of dates is \<open>datetime\<close>.
\<close>

record 'f installation =
  datatime :: "date attempt option"
  yfinance :: "(str \<Rightarrow> 'f ticker attempt) option"

datatype error = ModuleNotFoundError str | RaisedByToday

text \<open>
  Importing the module and calling the function. A call returns its list of entries, or
  raises: \<open>ModuleNotFoundError\<close> of the first import that finds no module, or what
  \<open>dt.date.today()\<close> raises at line 56, outside every \<open>try\<close>.
\<close>

definition get_earnings_calendar ::
  "(str \<Rightarrow> str) \<Rightarrow> 'f installation \<Rightarrow> symbols_arg \<Rightarrow> int \<Rightarrow> error + 'f Entry list" where
  "get_earnings_calendar upper inst symbols num =
     (case datatime inst of
        None \<Rightarrow> Inl (ModuleNotFoundError (lit ''datatime''))
      | Some dt \<Rightarrow>
          (case yfinance inst of
             None \<Rightarrow> Inl (ModuleNotFoundError (lit ''yfinance''))
           | Some yf_Ticker \<Rightarrow>
               (case dt of
                  Raises \<Rightarrow> Inl RaisedByToday
                | Returns today \<Rightarrow> Inr (calendar_entries upper yf_Ticker today symbols num))))"

subsection \<open>The extraction rule in the words of the specification\<close>

text \<open>
  Section 4.2 of the specification, steps 7 and 8: of an ordered list of field names, the
  value of the first one that is present in the row, not null and convertible to a
  number; absent when there is none. A key is \<open>usable\<close> in a row when it has such a value.
\<close>

definition usable :: "'f row \<Rightarrow> str \<Rightarrow> bool" where
  "usable row key = (case row key of Some (Convertible v) \<Rightarrow> True | _ \<Rightarrow> False)"

definition first_usable :: "str list \<Rightarrow> 'f row \<Rightarrow> 'f option" where
  "first_usable keys row =
     (case find (usable row) keys of
        None \<Rightarrow> None
      | Some key \<Rightarrow> (case row key of Some (Convertible v) \<Rightarrow> Some v | _ \<Rightarrow> None))"

text \<open>The past event that step 8 describes for a row: each field extracted by its own list.\<close>

definition past_event :: "date \<times> 'f row \<Rightarrow> 'f PastEvent" where
  "past_event p = (case p of (date_obj, row) \<Rightarrow>
     \<lparr>date = isoformat date_obj,
      eps_estimate = first_usable eps_estimate_keys row,
      eps_actual = first_usable eps_actual_keys row,
      surprise_percent = first_usable surprise_keys row\<rparr>)"

text \<open>A row is \<open>clean\<close> when \<open>float\<close> raises nothing but \<open>TypeError\<close> or \<open>ValueError\<close> on its cells.\<close>

definition clean :: "'f row \<Rightarrow> bool" where
  "clean row = (RaisesOther \<notin> ran row)"

subsection \<open>Installations and a provider to run the function on\<close>

text \<open>
  Three rows, with estimates in cents: one with an estimate and a reported value, one
  with \<open>None\<close> under \<open>EPS Estimate\<close>, one with both spellings of the estimate. They are
  the events of \<open>AAPL\<close>, given out of order. Besides, a symbol \<open>VOID\<close>
  whose query raises and whose calendar is absent; a symbol \<open>HUGE\<close> with one past event
  whose estimate makes \<open>float\<close> raise \<open>OverflowError\<close>; every other symbol makes
  \<open>yf.Ticker\<close> raise.
\<close>

definition reported_row :: "int row" where
  "reported_row = [lit ''EPS Estimate'' \<mapsto> Convertible 210, lit ''Reported EPS'' \<mapsto> Convertible 220]"

definition null_estimate_row :: "int row" where
  "null_estimate_row = [lit ''EPS Estimate'' \<mapsto> PyNone, lit ''epsestimate'' \<mapsto> Convertible 7,
                        lit ''surprise'' \<mapsto> Inconvertible]"

definition both_estimates_row :: "int row" where
  "both_estimates_row = [lit ''epsestimate'' \<mapsto> Convertible 5, lit ''EPS Estimate'' \<mapsto> Convertible 266]"

definition demo_rows :: "(date \<times> int row) list" where
  "demo_rows =
     [((2024, 10, 24), reported_row), ((2026, 1, 29), both_estimates_row),
      ((2024, 7, 5), null_estimate_row)]"

definition demo_frame :: "int frame" where
  "demo_frame = \<lparr>df_empty = False, df_iterrows = Returns (map (\<lambda>(d, r). (Some d, r)) demo_rows)\<rparr>"

definition huge_rows :: "(date \<times> int row) list" where
  "huge_rows =
     [((2026, 1, 29), [lit ''EPS Estimate'' \<mapsto> Convertible 266]),
      ((2024, 10, 24), [lit ''EPS Estimate'' \<mapsto> RaisesOther, lit ''epsestimate'' \<mapsto> Convertible 210,
                        lit ''Reported EPS'' \<mapsto> Convertible 220])]"

definition huge_frame :: "int frame" where
  "huge_frame = \<lparr>df_empty = False, df_iterrows = Returns (map (\<lambda>(d, r). (Some d, r)) huge_rows)\<rparr>"

definition demo_Ticker :: "str \<Rightarrow> int ticker attempt" where
  "demo_Ticker s =
     (if s = lit ''AAPL'' then
        Returns \<lparr>get_earnings_dates = (\<lambda>limit. Returns (Some demo_frame)), calendar = Raises\<rparr>
      else if s = lit ''HUGE'' then
        Returns \<lparr>get_earnings_dates = (\<lambda>limit. Returns (Some huge_frame)), calendar = Raises\<rparr>
      else if s = lit ''VOID'' then
        Returns \<lparr>get_earnings_dates = (\<lambda>limit. Raises), calendar = Returns None\<rparr>
      else Raises)"

text \<open>
  An installation with the standard library and \<open>yfinance\<close>: no module is named
  \<open>datatime\<close>. And one that has, besides, a module of that name which gives the first of
  June 2025 as today's date.
\<close>

definition standard_installation :: "int installation" where
  "standard_installation = \<lparr>datatime = None, yfinance = Some demo_Ticker\<rparr>"

definition patched_installation :: "int installation" where
  "patched_installation = \<lparr>datatime = Some (Returns (2025, 6, 1)), yfinance = Some demo_Ticker\<rparr>"

section \<open>Evaluating on examples\<close>

text \<open>
  The whitespace test decided by ranges, smallest code points first, for evaluation.
\<close>

lemma isspace_code [code]:
  "isspace c =
     (if c \<le> 0x20 then (0x09 \<le> c \<and> c \<le> 0x0D) \<or> 0x1C \<le> c
      else if c \<le> 0xA0 then c = 0x85 \<or> c = 0xA0
      else if c < 0x1680 then False
      else c = 0x1680 \<or> (0x2000 \<le> c \<and> c \<le> 0x200A) \<or> c = 0x2028 \<or> c = 0x2029
           \<or> c = 0x202F \<or> c = 0x205F \<or> c = 0x3000)"
  by (auto simp: isspace_def)

section \<open>Properties of the chat interpreter\<close>

subsection \<open>The list test and the tokens\<close>

text \<open>
  The handler tests the whole stripped text against \<open>list\<close> before it splits it. With a
  lower-casing that, like \<open>str.lower\<close> on ASCII text, changes capital letters only, a text
  that lower-cases to \<open>list\<close> has no whitespace and is its own single token: the test fails
  on every text of two tokens or more.
\<close>

lemma split_aux_no_space:
  "\<forall>c\<in>set s. \<not> isspace c \<Longrightarrow> split_aux cur s = (if cur @ s = [] then [] else [cur @ s])"
  by (induction s arbitrary: cur) auto

lemma ascii_lower_list_tokens:
  assumes "ascii_lower t = lit ''list''"
  shows "split t = [t]"
proof -
  let ?f = "\<lambda>c::nat. if 65 \<le> c \<and> c \<le> 90 then c + 32 else c"
  have ne: "t \<noteq> []" using assms by (auto simp: ascii_lower_def lit_def)
  have "set (map ?f t) = set (lit ''list'')" using assms by (simp add: ascii_lower_def)
  then have mem: "\<And>c. c \<in> set t \<Longrightarrow> ?f c \<in> set (lit ''list'')" by auto
  have "\<forall>c\<in>set t. \<not> isspace c"
  proof
    fix c assume c: "c \<in> set t"
    show "\<not> isspace c"
    proof
      assume "isspace c"
      then have "?f c = c \<and> c \<notin> set (lit ''list'')" by (auto simp: isspace_def lit_def)
      with mem [OF c] show False by simp
    qed
  qed
  then show ?thesis using ne by (simp add: split_def split_aux_no_space)
qed

subsection \<open>One equation per path of the handler\<close>

lemma chat_list:
  "str_lower py (strip message) = lit ''list'' \<Longrightarrow>
   chat py message STOCKS =
     (\<lparr>reply = lit ''You currently have '' @ str_nat (length STOCKS) @ lit '' stock(s).'',
       stocks = values_of STOCKS\<rparr>, STOCKS)"
  by (simp add: chat_def)

lemma chat_add_ok:
  assumes "str_lower py (strip message) \<noteq> lit ''list''" "split (strip message) = parts"
    "4 \<le> length parts" "str_lower py (hd parts) = lit ''add''" "float_of py (last parts) = Some p"
  shows "chat py message STOCKS =
     (let symb = str_upper py (parts ! 1); nm = join (lit '' '') (butlast (drop 2 parts));
          STOCKS' = AList.update symb \<lparr>symbol = symb, name = nm, price = p, notes' = None\<rparr> STOCKS
      in (\<lparr>reply = lit ''Added '' @ symb @ lit '' ('' @ nm @ lit '') at '' @ format_float py p
                    @ lit ''.'',
           stocks = values_of STOCKS'\<rparr>, STOCKS'))"
proof -
  have "parts \<noteq> []" using assms(3) by auto
  then show ?thesis using assms by (simp add: chat_def Let_def)
qed

lemma chat_add_bad:
  assumes "str_lower py (strip message) \<noteq> lit ''list''" "split (strip message) = parts"
    "4 \<le> length parts" "str_lower py (hd parts) = lit ''add''" "float_of py (last parts) = None"
  shows "chat py message STOCKS =
     (\<lparr>reply = add_parse_error, stocks = values_of STOCKS\<rparr>, STOCKS)"
proof -
  have "parts \<noteq> []" using assms(3) by auto
  then show ?thesis using assms by (simp add: chat_def Let_def)
qed

lemma chat_remove_absent:
  assumes "str_lower py (strip message) \<noteq> lit ''list''" "split (strip message) = parts"
    "length parts = 2" "str_lower py (hd parts) = lit ''remove''"
    "map_of STOCKS (str_upper py (parts ! 1)) = None"
  shows "chat py message STOCKS =
     (\<lparr>reply = not_in_list (str_upper py (parts ! 1)), stocks = values_of STOCKS\<rparr>, STOCKS)"
proof -
  have "parts \<noteq> []" using assms(3) by auto
  moreover have "lit ''remove'' \<noteq> lit ''add''" by (simp add: lit_def)
  ultimately show ?thesis using assms by (simp add: chat_def Let_def)
qed

lemma chat_update_absent:
  assumes "str_lower py (strip message) \<noteq> lit ''list''" "split (strip message) = parts"
    "length parts = 3" "str_lower py (hd parts) = lit ''update''"
    "map_of STOCKS (str_upper py (parts ! 1)) = None"
  shows "chat py message STOCKS =
     (\<lparr>reply = not_in_list (str_upper py (parts ! 1)), stocks = values_of STOCKS\<rparr>, STOCKS)"
proof -
  have "parts \<noteq> []" using assms(3) by auto
  moreover have "lit ''update'' \<noteq> lit ''add''" "lit ''update'' \<noteq> lit ''remove''"
    by (simp_all add: lit_def)
  ultimately show ?thesis using assms by (simp add: chat_def Let_def)
qed

lemma chat_update_bad:
  assumes "str_lower py (strip message) \<noteq> lit ''list''" "split (strip message) = parts"
    "length parts = 3" "str_lower py (hd parts) = lit ''update''"
    "map_of STOCKS (str_upper py (parts ! 1)) = Some existing" "float_of py (parts ! 2) = None"
  shows "chat py message STOCKS =
     (\<lparr>reply = update_parse_error, stocks = values_of STOCKS\<rparr>, STOCKS)"
proof -
  have "parts \<noteq> []" using assms(3) by auto
  moreover have "lit ''update'' \<noteq> lit ''add''" "lit ''update'' \<noteq> lit ''remove''"
    by (simp_all add: lit_def)
  ultimately show ?thesis using assms by (simp add: chat_def Let_def)
qed

lemma chat_update_ok:
  assumes "str_lower py (strip message) \<noteq> lit ''list''" "split (strip message) = parts"
    "length parts = 3" "str_lower py (hd parts) = lit ''update''"
    "map_of STOCKS (str_upper py (parts ! 1)) = Some existing" "float_of py (parts ! 2) = Some p"
  shows "chat py message STOCKS =
     (let symb = str_upper py (parts ! 1); STOCKS' = AList.update symb (existing\<lparr>price := p\<rparr>) STOCKS
      in (\<lparr>reply = lit ''Updated '' @ symb @ lit '' to '' @ format_float py p @ lit ''.'',
           stocks = values_of STOCKS'\<rparr>, STOCKS'))"
proof -
  have "parts \<noteq> []" using assms(3) by auto
  moreover have "lit ''update'' \<noteq> lit ''add''" "lit ''update'' \<noteq> lit ''remove''"
    by (simp_all add: lit_def)
  ultimately show ?thesis using assms by (simp add: chat_def Let_def)
qed

lemma chat_help:
  assumes "str_lower py (strip message) \<noteq> lit ''list''" "split (strip message) = parts"
    "parts \<noteq> []"
    "str_lower py (hd parts) = lit ''add'' \<longrightarrow> length parts < 4"
    "str_lower py (hd parts) = lit ''remove'' \<longrightarrow> length parts \<noteq> 2"
    "str_lower py (hd parts) = lit ''update'' \<longrightarrow> length parts \<noteq> 3"
  shows "chat py message STOCKS =
     (\<lparr>reply = help_text, stocks = values_of STOCKS\<rparr>, STOCKS)"
  using assms by (auto simp add: chat_def Let_def)

lemma slice_2_last: "butlast (drop 2 xs) = map ((!) xs) [2..<length xs - 1]"
  by (rule nth_equalityI) (auto simp: nth_butlast)


subsection \<open>The add command\<close>

text \<open>
  C2. For every store and every message that is not the \<open>list\<close> command and whose tokens
  are \<open>add SYM NAME... PRICE\<close>, at least four of them, the command word in any case and
  the last token accepted by \<open>float\<close>: after the call the store maps the upper-cased \<open>SYM\<close>
  to the record with that symbol, with the name made of the tokens at positions 2 up to
  the one before the last, joined by single blanks, and with the parsed price. Nothing is
  assumed of the store before the call, so the record is inserted or overwritten. (The
  handler tests the stripped text against \<open>list\<close> first, line 83; no text of several tokens
  lower-cases to \<open>list\<close> under \<open>str.lower\<close>.)
\<close>

theorem chat_add_upserts:
  assumes "str_lower py (strip message) \<noteq> lit ''list''"
    and "split (strip message) = parts" and "4 \<le> length parts"
    and "str_lower py (hd parts) = lit ''add''" and "float_of py (last parts) = Some p"
  shows "map_of (snd (chat py message STOCKS)) (str_upper py (parts ! 1)) =
           Some \<lparr>symbol = str_upper py (parts ! 1),
                 name = join (lit '' '') (map ((!) parts) [2..<length parts - 1]),
                 price = p, notes' = None\<rparr>"
  using chat_add_ok [where py = py and message = message and parts = parts and p = p
      and STOCKS = STOCKS, OF assms]
  by (simp add: Let_def update_conv' slice_2_last)

theorem chat_add_upserts_witness:
  "str_lower demo_py (strip (lit ''add aapl Apple Inc 195.3'')) \<noteq> lit ''list''
   \<and> split (strip (lit ''add aapl Apple Inc 195.3''))
       = [lit ''add'', lit ''aapl'', lit ''Apple'', lit ''Inc'', lit ''195.3'']
   \<and> float_of demo_py (lit ''195.3'') = Some 1953
   \<and> map_of (snd (chat demo_py (lit ''add aapl Apple Inc 195.3'') demo_store)) (lit ''AAPL'')
       = Some \<lparr>symbol = lit ''AAPL'', name = lit ''Apple Inc'', price = 1953, notes' = None\<rparr>"
proof -
  let ?parts = "[lit ''add'', lit ''aapl'', lit ''Apple'', lit ''Inc'', lit ''195.3'']"
  have nl: "str_lower demo_py (strip (lit ''add aapl Apple Inc 195.3'')) \<noteq> lit ''list''"
    by code_simp
  have p: "split (strip (lit ''add aapl Apple Inc 195.3'')) = ?parts" by code_simp
  have n: "4 \<le> length ?parts" by simp
  have l: "str_lower demo_py (hd ?parts) = lit ''add''" by code_simp
  have f: "float_of demo_py (last ?parts) = Some 1953" by code_simp
  have f': "float_of demo_py (lit ''195.3'') = Some 1953" by code_simp
  have u: "str_upper demo_py (?parts ! 1) = lit ''AAPL''" by code_simp
  have nm: "join (lit '' '') (map ((!) ?parts) [2..<length ?parts - 1]) = lit ''Apple Inc''"
    by code_simp
  note t = chat_add_upserts [where py = demo_py and STOCKS = demo_store, OF nl p n l f,
      unfolded u nm]
  show ?thesis using t nl p f' by blast
qed

text \<open>
  C10. A record written by the \<open>add\<close> command has no notes: after a well-formed \<open>add\<close>
  the notes of the record stored under the symbol are \<open>None\<close>, whatever record, with
  whatever notes, the store held under that symbol before.
\<close>

theorem chat_add_discards_notes:
  assumes "str_lower py (strip message) \<noteq> lit ''list''"
    and "split (strip message) = parts" and "4 \<le> length parts"
    and "str_lower py (hd parts) = lit ''add''" and "float_of py (last parts) = Some p"
  shows "map_option notes' (map_of (snd (chat py message STOCKS)) (str_upper py (parts ! 1)))
           = Some None"
  using chat_add_ok [where py = py and message = message and parts = parts and p = p
      and STOCKS = STOCKS, OF assms]
  by (simp add: Let_def update_conv')

theorem chat_add_discards_notes_witness:
  "map_option notes' (map_of demo_store (lit ''AAPL'')) = Some (Some (lit ''keep''))
   \<and> str_lower demo_py (strip (lit ''ADD aapl Apple 195.3'')) \<noteq> lit ''list''
   \<and> split (strip (lit ''ADD aapl Apple 195.3''))
       = [lit ''ADD'', lit ''aapl'', lit ''Apple'', lit ''195.3'']
   \<and> map_option notes' (map_of (snd (chat demo_py (lit ''ADD aapl Apple 195.3'') demo_store))
         (lit ''AAPL''))
       = Some None"
proof -
  let ?parts = "[lit ''ADD'', lit ''aapl'', lit ''Apple'', lit ''195.3'']"
  have nl: "str_lower demo_py (strip (lit ''ADD aapl Apple 195.3'')) \<noteq> lit ''list''"
    by code_simp
  have p: "split (strip (lit ''ADD aapl Apple 195.3'')) = ?parts" by code_simp
  have n: "4 \<le> length ?parts" by simp
  have l: "str_lower demo_py (hd ?parts) = lit ''add''" by code_simp
  have f: "float_of demo_py (last ?parts) = Some 1953" by code_simp
  have u: "str_upper demo_py (?parts ! 1) = lit ''AAPL''" by code_simp
  have o: "map_option notes' (map_of demo_store (lit ''AAPL'')) = Some (Some (lit ''keep''))"
    by code_simp
  note t = chat_add_discards_notes [where py = demo_py and STOCKS = demo_store,
      OF nl p n l f, unfolded u]
  show ?thesis using t nl p o by blast
qed

subsection \<open>The update command\<close>

text \<open>
  C6. For every store that has a record under the upper-cased \<open>S\<close> and every message that
  is not the \<open>list\<close> command and whose tokens are exactly \<open>update S PRICE\<close> with \<open>PRICE\<close>
  accepted by \<open>float\<close>: after the call the record under that symbol has the new price and
  the symbol, name and notes it had before; every other key maps to what it mapped to
  before; and the keys are the same, in the same order.
\<close>

theorem chat_update_only_price:
  assumes "str_lower py (strip message) \<noteq> lit ''list''"
    and "split (strip message) = [c, s, ptxt]" and "str_lower py c = lit ''update''"
    and "map_of STOCKS (str_upper py s) = Some r" and "float_of py ptxt = Some p"
  shows "(\<exists>r'. map_of (snd (chat py message STOCKS)) (str_upper py s) = Some r'
            \<and> price r' = p \<and> symbol r' = symbol r \<and> name r' = name r \<and> notes' r' = notes' r)
       \<and> (\<forall>k. k \<noteq> str_upper py s \<longrightarrow>
            map_of (snd (chat py message STOCKS)) k = map_of STOCKS k)
       \<and> map fst (snd (chat py message STOCKS)) = map fst STOCKS"
proof -
  have k: "str_upper py s \<in> fst ` set STOCKS"
    using assms(4) by (meson domI dom_map_of_conv_image_fst [THEN equalityD1] subsetD)
  have "chat py message STOCKS =
     (let symb = str_upper py ([c, s, ptxt] ! 1);
          STOCKS' = AList.update symb (r\<lparr>price := p\<rparr>) STOCKS
      in (\<lparr>reply = lit ''Updated '' @ symb @ lit '' to '' @ format_float py p @ lit ''.'',
           stocks = values_of STOCKS'\<rparr>, STOCKS'))"
    by (rule chat_update_ok [OF assms(1) assms(2)]) (use assms in simp_all)
  then show ?thesis using k
    by (simp add: Let_def update_conv' update_keys)
qed

theorem chat_update_only_price_witness:
  "str_lower demo_py (strip (lit ''update aapl 200.0'')) \<noteq> lit ''list''
   \<and> split (strip (lit ''update aapl 200.0'')) = [lit ''update'', lit ''aapl'', lit ''200.0'']
   \<and> map_of (snd (chat demo_py (lit ''update aapl 200.0'') demo_store)) (lit ''AAPL'')
       = Some \<lparr>symbol = lit ''AAPL'', name = lit ''Apple'', price = 2000,
               notes' = Some (lit ''keep'')\<rparr>
   \<and> map_of (snd (chat demo_py (lit ''update aapl 200.0'') demo_store)) (lit ''TSLA'')
       = map_of demo_store (lit ''TSLA'')
   \<and> map fst (snd (chat demo_py (lit ''update aapl 200.0'') demo_store))
       = [lit ''AAPL'', lit ''TSLA'']"
proof -
  have nl: "str_lower demo_py (strip (lit ''update aapl 200.0'')) \<noteq> lit ''list''" by code_simp
  have p: "split (strip (lit ''update aapl 200.0'')) = [lit ''update'', lit ''aapl'', lit ''200.0'']"
    by code_simp
  have l: "str_lower demo_py (lit ''update'') = lit ''update''" by code_simp
  have u: "str_upper demo_py (lit ''aapl'') = lit ''AAPL''" by code_simp
  have m: "map_of demo_store (str_upper demo_py (lit ''aapl''))
             = Some \<lparr>symbol = lit ''AAPL'', name = lit ''Apple'', price = 1953,
                     notes' = Some (lit ''keep'')\<rparr>"
    by code_simp
  have f: "float_of demo_py (lit ''200.0'') = Some 2000" by code_simp
  have k: "map fst demo_store = [lit ''AAPL'', lit ''TSLA'']" by (simp add: demo_store_def)
  have d: "lit ''TSLA'' \<noteq> lit ''AAPL''" by (simp add: lit_def)
  note t = chat_update_only_price [where py = demo_py and STOCKS = demo_store and p = 2000,
      OF nl p l m f, unfolded u]
  from t obtain r' where r': "map_of (snd (chat demo_py (lit ''update aapl 200.0'') demo_store))
      (lit ''AAPL'') = Some r'" "price r' = 2000" "symbol r' = lit ''AAPL''"
      "name r' = lit ''Apple''" "notes' r' = Some (lit ''keep'')"
    by auto
  then have "r' = \<lparr>symbol = lit ''AAPL'', name = lit ''Apple'', price = 2000,
                    notes' = Some (lit ''keep'')\<rparr>"
    by simp
  then show ?thesis using t r'(1) nl p k d by simp
qed

subsection \<open>Input that is not carried out\<close>

text \<open>
  C7, as stated, fails on an \<open>update\<close> that names an absent symbol and carries a price that
  does not parse: the handler looks the symbol up before it parses the price, and replies
  that the symbol is not in the list. (The message is ASCII, where the built-ins of the
  example are Python's.)
\<close>

theorem chat_update_absent_bad_price_counterexample:
  "split (strip (lit ''update XYZ abc'')) = [lit ''update'', lit ''XYZ'', lit ''abc'']
   \<and> float_of demo_py (lit ''abc'') = None
   \<and> reply (fst (chat demo_py (lit ''update XYZ abc'') [])) = lit ''XYZ is not in your list.''
   \<and> reply (fst (chat demo_py (lit ''update XYZ abc'') [])) \<noteq> update_parse_error
   \<and> reply (fst (chat demo_py (lit ''update XYZ abc'') [])) \<noteq> add_parse_error"
  by code_simp

text \<open>
  C7, amended. The handler returns a reply, with the store and the snapshot as they were,
  in each of these cases, for a message that is not the \<open>list\<close> command: an \<open>add\<close> of at
  least four tokens whose last token does not parse (reply: the parse error of \<open>add\<close>);
  an \<open>update\<close> of three tokens that names a symbol in the store and whose price does not
  parse (reply: the parse error of \<open>update\<close>); a \<open>remove\<close> of two tokens or an \<open>update\<close> of
  three tokens that names a symbol absent from the store (reply: the symbol is not in the
  list).
\<close>

theorem chat_bad_input_recovered:
  assumes "str_lower py (strip message) \<noteq> lit ''list''" and "split (strip message) = parts"
  shows "(str_lower py (hd parts) = lit ''add'' \<and> 4 \<le> length parts
            \<and> float_of py (last parts) = None \<longrightarrow>
            chat py message STOCKS =
              (\<lparr>reply = add_parse_error, stocks = values_of STOCKS\<rparr>, STOCKS))
       \<and> (str_lower py (hd parts) = lit ''update'' \<and> length parts = 3
            \<and> map_of STOCKS (str_upper py (parts ! 1)) \<noteq> None
            \<and> float_of py (parts ! 2) = None \<longrightarrow>
            chat py message STOCKS =
              (\<lparr>reply = update_parse_error, stocks = values_of STOCKS\<rparr>, STOCKS))
       \<and> (str_lower py (hd parts) = lit ''remove'' \<and> length parts = 2
            \<and> map_of STOCKS (str_upper py (parts ! 1)) = None \<longrightarrow>
            chat py message STOCKS =
              (\<lparr>reply = not_in_list (str_upper py (parts ! 1)), stocks = values_of STOCKS\<rparr>,
               STOCKS))
       \<and> (str_lower py (hd parts) = lit ''update'' \<and> length parts = 3
            \<and> map_of STOCKS (str_upper py (parts ! 1)) = None \<longrightarrow>
            chat py message STOCKS =
              (\<lparr>reply = not_in_list (str_upper py (parts ! 1)), stocks = values_of STOCKS\<rparr>,
               STOCKS))"
proof (intro conjI impI)
  assume "str_lower py (hd parts) = lit ''add'' \<and> 4 \<le> length parts
            \<and> float_of py (last parts) = None"
  then show "chat py message STOCKS =
      (\<lparr>reply = add_parse_error, stocks = values_of STOCKS\<rparr>, STOCKS)"
    using chat_add_bad [OF assms] by blast
next
  assume "str_lower py (hd parts) = lit ''update'' \<and> length parts = 3
            \<and> map_of STOCKS (str_upper py (parts ! 1)) \<noteq> None
            \<and> float_of py (parts ! 2) = None"
  then show "chat py message STOCKS =
      (\<lparr>reply = update_parse_error, stocks = values_of STOCKS\<rparr>, STOCKS)"
    using chat_update_bad [OF assms] by blast
next
  assume "str_lower py (hd parts) = lit ''remove'' \<and> length parts = 2
            \<and> map_of STOCKS (str_upper py (parts ! 1)) = None"
  then show "chat py message STOCKS =
      (\<lparr>reply = not_in_list (str_upper py (parts ! 1)), stocks = values_of STOCKS\<rparr>, STOCKS)"
    using chat_remove_absent [OF assms] by blast
next
  assume "str_lower py (hd parts) = lit ''update'' \<and> length parts = 3
            \<and> map_of STOCKS (str_upper py (parts ! 1)) = None"
  then show "chat py message STOCKS =
      (\<lparr>reply = not_in_list (str_upper py (parts ! 1)), stocks = values_of STOCKS\<rparr>, STOCKS)"
    using chat_update_absent [OF assms] by blast
qed


theorem chat_bad_input_recovered_witness:
  "chat demo_py (lit ''add MSFT Microsoft Corp abc'') demo_store =
     (\<lparr>reply = add_parse_error, stocks = values_of demo_store\<rparr>, demo_store)
   \<and> chat demo_py (lit ''update aapl 2oo'') demo_store =
     (\<lparr>reply = update_parse_error, stocks = values_of demo_store\<rparr>, demo_store)
   \<and> chat demo_py (lit ''remove msft'') demo_store =
     (\<lparr>reply = lit ''MSFT is not in your list.'', stocks = values_of demo_store\<rparr>, demo_store)
   \<and> chat demo_py (lit ''update msft 200.0'') demo_store =
     (\<lparr>reply = lit ''MSFT is not in your list.'', stocks = values_of demo_store\<rparr>, demo_store)"
proof -
  let ?p1 = "[lit ''add'', lit ''MSFT'', lit ''Microsoft'', lit ''Corp'', lit ''abc'']"
  let ?p2 = "[lit ''update'', lit ''aapl'', lit ''2oo'']"
  let ?p3 = "[lit ''remove'', lit ''msft'']"
  let ?p4 = "[lit ''update'', lit ''msft'', lit ''200.0'']"
  have n1: "str_lower demo_py (strip (lit ''add MSFT Microsoft Corp abc'')) \<noteq> lit ''list''"
    by code_simp
  have n2: "str_lower demo_py (strip (lit ''update aapl 2oo'')) \<noteq> lit ''list''" by code_simp
  have n3: "str_lower demo_py (strip (lit ''remove msft'')) \<noteq> lit ''list''" by code_simp
  have n4: "str_lower demo_py (strip (lit ''update msft 200.0'')) \<noteq> lit ''list''" by code_simp
  have p1: "split (strip (lit ''add MSFT Microsoft Corp abc'')) = ?p1" by code_simp
  have p2: "split (strip (lit ''update aapl 2oo'')) = ?p2" by code_simp
  have p3: "split (strip (lit ''remove msft'')) = ?p3" by code_simp
  have p4: "split (strip (lit ''update msft 200.0'')) = ?p4" by code_simp
  have h1: "str_lower demo_py (hd ?p1) = lit ''add'' \<and> 4 \<le> length ?p1
            \<and> float_of demo_py (last ?p1) = None"
    by code_simp
  have h2: "str_lower demo_py (hd ?p2) = lit ''update'' \<and> length ?p2 = 3
            \<and> map_of demo_store (str_upper demo_py (?p2 ! 1)) \<noteq> None
            \<and> float_of demo_py (?p2 ! 2) = None"
    by code_simp
  have h3: "str_lower demo_py (hd ?p3) = lit ''remove'' \<and> length ?p3 = 2
            \<and> map_of demo_store (str_upper demo_py (?p3 ! 1)) = None"
    by code_simp
  have h4: "str_lower demo_py (hd ?p4) = lit ''update'' \<and> length ?p4 = 3
            \<and> map_of demo_store (str_upper demo_py (?p4 ! 1)) = None"
    by code_simp
  have r3: "not_in_list (str_upper demo_py (?p3 ! 1)) = lit ''MSFT is not in your list.''"
    by code_simp
  have r4: "not_in_list (str_upper demo_py (?p4 ! 1)) = lit ''MSFT is not in your list.''"
    by code_simp
  note t1 = chat_bad_input_recovered [where py = demo_py and STOCKS = demo_store, OF n1 p1]
  note t2 = chat_bad_input_recovered [where py = demo_py and STOCKS = demo_store, OF n2 p2]
  note t3 = chat_bad_input_recovered [where py = demo_py and STOCKS = demo_store, OF n3 p3,
      unfolded r3]
  note t4 = chat_bad_input_recovered [where py = demo_py and STOCKS = demo_store, OF n4 p4,
      unfolded r4]
  have a: "chat demo_py (lit ''add MSFT Microsoft Corp abc'') demo_store =
     (\<lparr>reply = add_parse_error, stocks = values_of demo_store\<rparr>, demo_store)"
    using t1 h1 by blast
  have b: "chat demo_py (lit ''update aapl 2oo'') demo_store =
     (\<lparr>reply = update_parse_error, stocks = values_of demo_store\<rparr>, demo_store)"
    using t2 h2 by blast
  have c: "chat demo_py (lit ''remove msft'') demo_store =
     (\<lparr>reply = lit ''MSFT is not in your list.'', stocks = values_of demo_store\<rparr>, demo_store)"
    using t3 h3 by blast
  have d: "chat demo_py (lit ''update msft 200.0'') demo_store =
     (\<lparr>reply = lit ''MSFT is not in your list.'', stocks = values_of demo_store\<rparr>, demo_store)"
    using t4 h4 by blast
  from a b c d show ?thesis by blast
qed

text \<open>
  C8. For every store and every message that is not the \<open>list\<close> command and has a first
  token: when that token, lower-cased, is none of \<open>list\<close>, \<open>add\<close>, \<open>remove\<close>, \<open>update\<close>, or
  is one of them with a token count the command does not take (\<open>list\<close> with more than one
  token, \<open>add\<close> with fewer than four, \<open>remove\<close> with other than two, \<open>update\<close> with other
  than three), the reply is the help text, and the store and the snapshot are as they
  were.
\<close>

theorem chat_help_on_unrecognized:
  assumes "str_lower py (strip message) \<noteq> lit ''list''"
    and "split (strip message) = parts" and "parts \<noteq> []"
    and "str_lower py (hd parts) \<notin> {lit ''list'', lit ''add'', lit ''remove'', lit ''update''}
         \<or> (str_lower py (hd parts) = lit ''list'' \<and> length parts \<noteq> 1)
         \<or> (str_lower py (hd parts) = lit ''add'' \<and> length parts < 4)
         \<or> (str_lower py (hd parts) = lit ''remove'' \<and> length parts \<noteq> 2)
         \<or> (str_lower py (hd parts) = lit ''update'' \<and> length parts \<noteq> 3)"
  shows "chat py message STOCKS =
           (\<lparr>reply = help_text, stocks = values_of STOCKS\<rparr>, STOCKS)"
proof (rule chat_help [OF assms(1) assms(2) assms(3)])
  have d: "lit ''list'' \<noteq> lit ''add''" "lit ''list'' \<noteq> lit ''remove''"
    "lit ''list'' \<noteq> lit ''update''" "lit ''add'' \<noteq> lit ''remove''"
    "lit ''add'' \<noteq> lit ''update''" "lit ''remove'' \<noteq> lit ''update''"
    by (simp_all add: lit_def)
  show "str_lower py (hd parts) = lit ''add'' \<longrightarrow> length parts < 4"
    using assms(4) d by auto
  show "str_lower py (hd parts) = lit ''remove'' \<longrightarrow> length parts \<noteq> 2"
    using assms(4) d by auto
  show "str_lower py (hd parts) = lit ''update'' \<longrightarrow> length parts \<noteq> 3"
    using assms(4) d by auto
qed

theorem chat_help_on_unrecognized_witness:
  "chat demo_py (lit ''buy AAPL 3'') demo_store =
     (\<lparr>reply = help_text, stocks = values_of demo_store\<rparr>, demo_store)
   \<and> chat demo_py (lit ''Add AAPL 195.3'') demo_store =
     (\<lparr>reply = help_text, stocks = values_of demo_store\<rparr>, demo_store)
   \<and> chat demo_py (lit ''remove'') demo_store =
     (\<lparr>reply = help_text, stocks = values_of demo_store\<rparr>, demo_store)
   \<and> chat demo_py (lit ''update AAPL to 200.0'') demo_store =
     (\<lparr>reply = help_text, stocks = values_of demo_store\<rparr>, demo_store)"
proof -
  let ?p1 = "[lit ''buy'', lit ''AAPL'', lit ''3'']"
  let ?p2 = "[lit ''Add'', lit ''AAPL'', lit ''195.3'']"
  let ?p3 = "[lit ''remove'']"
  let ?p4 = "[lit ''update'', lit ''AAPL'', lit ''to'', lit ''200.0'']"
  have n1: "str_lower demo_py (strip (lit ''buy AAPL 3'')) \<noteq> lit ''list''" by code_simp
  have n2: "str_lower demo_py (strip (lit ''Add AAPL 195.3'')) \<noteq> lit ''list''" by code_simp
  have n3: "str_lower demo_py (strip (lit ''remove'')) \<noteq> lit ''list''" by code_simp
  have n4: "str_lower demo_py (strip (lit ''update AAPL to 200.0'')) \<noteq> lit ''list''"
    by code_simp
  have p1: "split (strip (lit ''buy AAPL 3'')) = ?p1" by code_simp
  have p2: "split (strip (lit ''Add AAPL 195.3'')) = ?p2" by code_simp
  have p3: "split (strip (lit ''remove'')) = ?p3" by code_simp
  have p4: "split (strip (lit ''update AAPL to 200.0'')) = ?p4" by code_simp
  have e: "?p1 \<noteq> []" "?p2 \<noteq> []" "?p3 \<noteq> []" "?p4 \<noteq> []" by simp_all
  have h1: "str_lower demo_py (hd ?p1)
              \<notin> {lit ''list'', lit ''add'', lit ''remove'', lit ''update''}"
    by code_simp
  have h2: "str_lower demo_py (hd ?p2) = lit ''add'' \<and> length ?p2 < 4" by code_simp
  have h3: "str_lower demo_py (hd ?p3) = lit ''remove'' \<and> length ?p3 \<noteq> 2" by code_simp
  have h4: "str_lower demo_py (hd ?p4) = lit ''update'' \<and> length ?p4 \<noteq> 3" by code_simp
  have a: "chat demo_py (lit ''buy AAPL 3'') demo_store =
     (\<lparr>reply = help_text, stocks = values_of demo_store\<rparr>, demo_store)"
    by (rule chat_help_on_unrecognized [OF n1 p1 e(1)]) (use h1 in blast)
  have b: "chat demo_py (lit ''Add AAPL 195.3'') demo_store =
     (\<lparr>reply = help_text, stocks = values_of demo_store\<rparr>, demo_store)"
    by (rule chat_help_on_unrecognized [OF n2 p2 e(2)]) (use h2 in blast)
  have c: "chat demo_py (lit ''remove'') demo_store =
     (\<lparr>reply = help_text, stocks = values_of demo_store\<rparr>, demo_store)"
    by (rule chat_help_on_unrecognized [OF n3 p3 e(3)]) (use h3 in blast)
  have d: "chat demo_py (lit ''update AAPL to 200.0'') demo_store =
     (\<lparr>reply = help_text, stocks = values_of demo_store\<rparr>, demo_store)"
    by (rule chat_help_on_unrecognized [OF n4 p4 e(4)]) (use h4 in blast)
  from a b c d show ?thesis by blast
qed

subsection \<open>The list command\<close>

text \<open>
  C9. For every store and every message whose stripped text lower-cases to \<open>list\<close>: the
  store after the call is the store before it, the reply gives the number of records, the
  snapshot holds all records in the order of the store, and a second call returns the
  same snapshot.
\<close>

theorem chat_list_reads_only:
  assumes "str_lower py (strip message) = lit ''list''"
  shows "chat py message STOCKS =
           (\<lparr>reply = lit ''You currently have '' @ str_nat (length STOCKS) @ lit '' stock(s).'',
             stocks = map snd STOCKS\<rparr>, STOCKS)
       \<and> stocks (fst (chat py message (snd (chat py message STOCKS))))
           = stocks (fst (chat py message STOCKS))"
  using assms by (simp add: chat_list values_of_def)

theorem chat_list_reads_only_witness:
  "str_lower demo_py (strip ([0xA0] @ lit '' LiSt '' @ [0x2003])) = lit ''list''
   \<and> chat demo_py ([0xA0] @ lit '' LiSt '' @ [0x2003]) demo_store =
       (\<lparr>reply = lit ''You currently have 2 stock(s).'', stocks = map snd demo_store\<rparr>,
        demo_store)
   \<and> stocks (fst (chat demo_py ([0xA0] @ lit '' LiSt '' @ [0x2003])
          (snd (chat demo_py ([0xA0] @ lit '' LiSt '' @ [0x2003]) demo_store))))
       = stocks (fst (chat demo_py ([0xA0] @ lit '' LiSt '' @ [0x2003]) demo_store))"
proof -
  have h: "str_lower demo_py (strip ([0xA0] @ lit '' LiSt '' @ [0x2003])) = lit ''list''"
    by code_simp
  have n: "lit ''You currently have '' @ str_nat (length demo_store) @ lit '' stock(s).''
             = lit ''You currently have 2 stock(s).''"
    by code_simp
  note t = chat_list_reads_only [where py = demo_py and STOCKS = demo_store, OF h, unfolded n]
  show ?thesis using t h by blast
qed

section \<open>Properties of the earnings calendar\<close>

subsection \<open>Extraction and normalization\<close>

text \<open>
  On a clean row the loop over candidate names returns, and returns what the
  specification describes. A cell on which \<open>float\<close> raises another exception ends the loop
  with that exception, unless a name before it was usable.
\<close>

lemma clean_cell: "clean row \<Longrightarrow> row key \<noteq> Some RaisesOther"
  by (auto simp: clean_def ran_def)

lemma first_float_clean: "clean row \<Longrightarrow> first_float keys row = Returns (first_usable keys row)"
proof (induction keys)
  case Nil
  then show ?case by (simp add: first_usable_def)
next
  case (Cons key keys)
  then show ?case using clean_cell [of row key]
    by (auto simp: first_usable_def usable_def split: option.splits cell.splits)
qed

lemma first_float_head:
  "row key = Some (Convertible v) \<Longrightarrow> first_float (key # keys) row = Returns (Some v)"
  by simp

lemma first_float_raises:
  "row key = Some RaisesOther \<Longrightarrow> first_float (key # keys) row = Raises"
  by simp

text \<open>The normalization of the symbols: trimmed, the empty ones dropped, upper-cased.\<close>

lemma normalize_symbols_eq:
  "normalize_symbols upper l =
     map upper (filter (\<lambda>s. s \<noteq> []) (map (\<lambda>x. strip (case x of None \<Rightarrow> [] | Some s \<Rightarrow> s)) l))"
  by (induction l) (simp_all add: Let_def)

text \<open>The limit of the query is 8 for every \<open>num\<close> up to 4, so also for \<open>num \<le> 0\<close>.\<close>

lemma query_num: "query yf_Ticker (if num \<le> 0 then 1 else num) symb = query yf_Ticker num symb"
proof -
  have eq: "max ((if num \<le> 0 then 1 else num) + 4) 8 = max (num + 4) (8::int)" by simp
  show ?thesis unfolding query_def eq by (rule refl)
qed

subsection \<open>Sorting\<close>

text \<open>
  The past rows are taken from the rows sorted by ascending date and then sorted by
  descending date. Both sorts are stable, so the result is the stable descending sort of
  the past rows as the source gave them.
\<close>

lemma sort_key_filter_stable:
  "sort_key f (rev (filter P (sort_key f xs))) = sort_key f (rev (filter P xs))"
proof (rule properties_for_sort_key [symmetric])
  show "mset (sort_key f (rev (filter P (sort_key f xs)))) = mset (rev (filter P xs))"
    by simp
next
  fix k
  have "filter (\<lambda>x. f k = f x) (sort_key f (rev (filter P (sort_key f xs))))
        = filter (\<lambda>x. f x = f k) (sort_key f (rev (filter P (sort_key f xs))))"
    by (rule filter_cong) auto
  also have "\<dots> = filter (\<lambda>x. f x = f k) (rev (filter P (sort_key f xs)))"
    by (rule sort_key_stable)
  also have "\<dots> = rev (filter P (filter (\<lambda>x. f x = f k) (sort_key f xs)))"
    by (simp add: rev_filter [symmetric] conj_commute)
  also have "\<dots> = rev (filter P (filter (\<lambda>x. f x = f k) xs))"
    by (simp only: sort_key_stable)
  also have "\<dots> = filter (\<lambda>x. f k = f x) (rev (filter P xs))"
    by (simp add: rev_filter [symmetric] conj_commute eq_commute)
  finally show "filter (\<lambda>x. f k = f x) (sort_key f (rev (filter P (sort_key f xs))))
        = filter (\<lambda>x. f k = f x) (rev (filter P xs))" .
next
  show "sorted (map f (sort_key f (rev (filter P (sort_key f xs)))))" by simp
qed

lemma sorted_desc_filter_sorted:
  "sorted_desc (filter P (sort_key fst rows)) = sorted_desc (filter P rows)"
  by (simp add: sorted_desc_def sort_key_filter_stable)

lemma set_sorted_desc: "set (sorted_desc rows) = set rows"
  by (simp add: sorted_desc_def)

lemma map_fst_sort_key: "map fst (sort_key fst rows) = sort (map fst rows)"
  by (rule properties_for_sort [symmetric]) simp_all

lemma sort_rev: "sort (rev xs) = sort xs"
  by (rule properties_for_sort) simp_all

lemma map_fst_sorted_desc: "map fst (sorted_desc rows) = rev (sort (map fst rows))"
  by (simp add: sorted_desc_def rev_map map_fst_sort_key sort_rev flip: rev_map)

lemma map_fst_filter_date:
  "map fst (filter (\<lambda>(d, r). P d) rows) = filter P (map fst rows)"
  by (induction rows) auto

lemma past_event_date: "map date (map past_event rows) = map isoformat (map fst rows)"
  by (induction rows) (auto simp: past_event_def)

lemma sorted_hd_Min:
  assumes "sorted xs" "xs \<noteq> []"
  shows "hd xs = Min (set xs)"
proof -
  obtain x ys where xs: "xs = x # ys" using assms(2) by (cases xs) auto
  then have "\<forall>y\<in>set xs. x \<le> y" using assms(1) by auto
  then show ?thesis using xs by (auto intro!: Min_eqI [symmetric])
qed

lemma future_head:
  fixes rows :: "(date \<times> 'f row) list"
  assumes "filter (\<lambda>(d, r). today \<le> d) (sort_key fst rows) = (nd, nr) # rest"
  shows "nd = Min {d \<in> fst ` set rows. today \<le> d}"
proof -
  let ?fut = "filter (\<lambda>(d, r). today \<le> d) (sort_key fst rows)"
  have "sorted (map fst ?fut)" by (rule sorted_filter) simp
  moreover have "map fst ?fut \<noteq> []" using assms by simp
  ultimately have "hd (map fst ?fut) = Min (set (map fst ?fut))" by (rule sorted_hd_Min)
  moreover have "set (map fst ?fut) = {d \<in> fst ` set rows. today \<le> d}" by force
  ultimately show ?thesis using assms by simp
qed

lemma future_empty:
  fixes rows :: "(date \<times> 'f row) list"
  shows "filter (\<lambda>(d, r). today \<le> d) (sort_key fst rows) = [] \<longleftrightarrow> \<not> (\<exists>d\<in>fst ` set rows. today \<le> d)"
  by (auto simp: filter_empty_conv)

subsection \<open>The entry, filled in place\<close>

text \<open>Whatever happens, the entry keeps its symbol, and only the loop of line 136 adds events.\<close>

lemma append_past_symbol: "entry_symbol (append_past entry rows) = entry_symbol entry"
  by (induction entry rows rule: append_past.induct) (auto split: attempt.splits)

lemma append_past_next:
  "next_earnings_date (append_past entry rows) = next_earnings_date entry
   \<and> next_earnings_estimate (append_past entry rows) = next_earnings_estimate entry"
  by (induction entry rows rule: append_past.induct) (auto split: attempt.splits)

lemma past_part_keeps:
  "entry_symbol (past_part num past_rows entry) = entry_symbol entry
   \<and> next_earnings_date (past_part num past_rows entry) = next_earnings_date entry
   \<and> next_earnings_estimate (past_part num past_rows entry) = next_earnings_estimate entry"
  by (simp add: past_part_def Let_def append_past_symbol append_past_next)

lemma past_part_one: "past_part 1 past_rows entry = entry"
  by (simp add: past_part_def)

lemma fill_entry_symbol:
  "entry_symbol (fill_entry today num (default_entry symb) rows) = symb"
  by (simp add: fill_entry_def Let_def default_entry_def past_part_keeps
      split: list.splits attempt.splits)

lemma fill_entry_nil: "fill_entry today num (default_entry symb) [] = default_entry symb"
  by (simp add: fill_entry_def Let_def past_part_def)

lemma fill_entry_past_one:
  "past_earnings (fill_entry today 1 (default_entry symb) rows) = []"
  by (simp add: fill_entry_def Let_def default_entry_def past_part_one
      split: list.splits attempt.splits)

text \<open>On clean rows every event is appended.\<close>

lemma append_past_clean:
  "\<forall>p\<in>set rows. clean (snd p) \<Longrightarrow>
   append_past entry rows = entry\<lparr>past_earnings := past_earnings entry @ map past_event rows\<rparr>"
proof (induction rows arbitrary: entry)
  case Nil
  then show ?case by simp
next
  case (Cons p rows)
  obtain d row where p: "p = (d, row)" by (cases p)
  have c: "clean row" using Cons.prems p by simp
  have r: "\<forall>p\<in>set rows. clean (snd p)" using Cons.prems by simp
  show ?case
    by (simp add: p first_float_clean [OF c] Cons.IH [OF r] past_event_def)
qed

lemma past_part_clean:
  assumes "\<forall>p\<in>set past_rows. clean (snd p)"
  shows "past_part num past_rows entry =
     entry\<lparr>past_earnings := past_earnings entry @
        map past_event (take (nat (max (num - 1) 0)) (sorted_desc past_rows))\<rparr>"
proof -
  have "\<forall>p\<in>set (take (nat (max (num - 1) 0)) (sorted_desc past_rows)). clean (snd p)"
    using assms set_sorted_desc [of past_rows] by (auto dest: in_set_takeD)
  then show ?thesis
    by (auto simp: past_part_def Let_def append_past_clean sorted_desc_def)
qed

lemma fill_entry_clean:
  fixes rows :: "(date \<times> 'f row) list"
  assumes "\<forall>p\<in>set rows. clean (snd p)"
  shows "fill_entry today num (default_entry symb) rows =
    \<lparr>entry_symbol = symb,
     next_earnings_date =
       (case filter (\<lambda>(d, r). today \<le> d) (sort_key fst rows) of
          [] \<Rightarrow> None | (nd, nr) # rest \<Rightarrow> Some (isoformat nd)),
     next_earnings_estimate =
       (case filter (\<lambda>(d, r). today \<le> d) (sort_key fst rows) of
          [] \<Rightarrow> None | (nd, nr) # rest \<Rightarrow> first_usable eps_estimate_keys nr),
     past_earnings =
       map past_event (take (nat (max (num - 1) 0))
                         (sorted_desc (filter (\<lambda>(d, r). d < today) rows)))\<rparr>"
proof -
  let ?past = "filter (\<lambda>(d, r). d < today) (sort_key fst rows)"
  have pc: "\<forall>p\<in>set ?past. clean (snd p)" using assms by auto
  note pp = past_part_clean [OF pc, unfolded sorted_desc_filter_sorted]
  show ?thesis
  proof (cases "filter (\<lambda>(d, r). today \<le> d) (sort_key fst rows)")
    case Nil
    then show ?thesis by (simp add: fill_entry_def Let_def pp default_entry_def)
  next
    case (Cons p rest)
    obtain nd nr where p: "p = (nd, nr)" by (cases p)
    have "(nd, nr) \<in> set (filter (\<lambda>(d, r). today \<le> d) (sort_key fst rows))"
      using Cons p by simp
    then have "clean nr" using assms by auto
    then show ?thesis using Cons p
      by (simp add: fill_entry_def Let_def pp default_entry_def first_float_clean)
  qed
qed

lemma fill_entry_next_estimate_clean:
  fixes rows :: "(date \<times> 'f row) list"
  assumes "filter (\<lambda>(d, r). today \<le> d) (sort_key fst rows) = (nd, nr) # rest" and "clean nr"
  shows "next_earnings_estimate (fill_entry today num (default_entry symb) rows) =
           first_usable eps_estimate_keys nr"
  using assms by (simp add: fill_entry_def Let_def first_float_clean past_part_keeps)

subsection \<open>The result, entry by entry\<close>

lemma collect_rows_dated: "collect_rows (map (\<lambda>(d, r). (Some d, r)) rows) = rows"
  by (induction rows) auto

lemma collect_rows_empty: "collect_rows raw = [] \<longleftrightarrow> (\<forall>p\<in>set raw. fst p = None)"
  by (induction raw rule: collect_rows.induct) auto

lemma symbol_entry_symbol: "entry_symbol (symbol_entry yf_Ticker today num symb) = symb"
  by (simp add: symbol_entry_def Let_def fill_entry_symbol split: attempt.splits option.splits)
    (simp add: default_entry_def)

lemma symbol_entry_data:
  assumes "query yf_Ticker num symb = Returns (Some df)" and "\<not> df_empty df"
    and "df_iterrows df = Returns (map (\<lambda>(d, r). (Some d, r)) rows)"
  shows "symbol_entry yf_Ticker today num symb = fill_entry today num (default_entry symb) rows"
  using assms by (simp add: symbol_entry_def Let_def collect_rows_dated fill_entry_nil)

lemma symbol_entry_no_data:
  assumes "query yf_Ticker num symb = Raises \<or> query yf_Ticker num symb = Returns None
     \<or> (\<exists>df. query yf_Ticker num symb = Returns (Some df)
           \<and> (df_empty df \<or> df_iterrows df = Raises
               \<or> (\<exists>raw. df_iterrows df = Returns raw \<and> (\<forall>p\<in>set raw. fst p = None))))"
  shows "symbol_entry yf_Ticker today num symb = default_entry symb"
  using assms collect_rows_empty [THEN iffD2]
  by (fastforce simp add: symbol_entry_def Let_def)

lemma symbol_entry_past_one: "past_earnings (symbol_entry yf_Ticker today 1 symb) = []"
  by (simp add: symbol_entry_def Let_def fill_entry_past_one split: attempt.splits option.splits)
     (simp add: default_entry_def)

lemma calendar_entries_eq:
  "calendar_entries upper yf_Ticker today symbols num =
     map (symbol_entry yf_Ticker today (if num \<le> 0 then 1 else num))
       (map upper (filter (\<lambda>s. s \<noteq> [])
          (map strip (case symbols of Single s \<Rightarrow> [s]
                      | Many l \<Rightarrow> map (\<lambda>x. case x of None \<Rightarrow> [] | Some s \<Rightarrow> s) l))))"
  by (cases symbols) (simp_all add: calendar_entries_def Let_def normalize_symbols_eq comp_def)

lemma calendar_member:
  assumes "e \<in> set (calendar_entries upper yf_Ticker today symbols num)"
  shows "e = symbol_entry yf_Ticker today (if num \<le> 0 then 1 else num) (entry_symbol e)"
proof -
  from assms obtain s where "e = symbol_entry yf_Ticker today (if num \<le> 0 then 1 else num) s"
    unfolding calendar_entries_eq by auto
  then show ?thesis using symbol_entry_symbol by metis
qed

lemma max_past_num: "max ((if num \<le> 0 then 1 else num) - 1) 0 = max (num - 1) (0::int)"
  by simp

subsection \<open>The module\<close>

text \<open>
  Without a module named \<open>datatime\<close> no call returns. With one, and with \<open>yfinance\<close>, a call
  returns the entries of the body.
\<close>

lemma import_fails:
  "datatime inst = None \<Longrightarrow>
   get_earnings_calendar upper inst symbols num = Inl (ModuleNotFoundError (lit ''datatime''))"
  by (simp add: get_earnings_calendar_def)

lemma import_resolved:
  "datatime inst = Some (Returns today) \<Longrightarrow> yfinance inst = Some yf_Ticker \<Longrightarrow>
   get_earnings_calendar upper inst symbols num
     = Inr (calendar_entries upper yf_Ticker today symbols num)"
  by (simp add: get_earnings_calendar_def)

subsection \<open>What the body does once the module is loaded\<close>

text \<open>
  The floor of \<open>num\<close>: the body returns for \<open>num \<le> 0\<close> what it returns for \<open>num = 1\<close>, and
  for \<open>num = 1\<close> no entry has past earnings.
\<close>

lemma body_num_floor:
  "(num \<le> 0 \<longrightarrow>
      calendar_entries upper yf_Ticker today symbols num
        = calendar_entries upper yf_Ticker today symbols 1)
   \<and> (\<forall>e\<in>set (calendar_entries upper yf_Ticker today symbols 1). past_earnings e = [])"
proof (intro conjI impI ballI)
  assume "num \<le> 0"
  then show "calendar_entries upper yf_Ticker today symbols num
        = calendar_entries upper yf_Ticker today symbols 1"
    by (simp add: calendar_entries_def)
next
  fix e assume "e \<in> set (calendar_entries upper yf_Ticker today symbols 1)"
  then have "e = symbol_entry yf_Ticker today 1 (entry_symbol e)"
    using calendar_member [of e upper yf_Ticker today symbols 1] by simp
  then show "past_earnings e = []" using symbol_entry_past_one by metis
qed

text \<open>
  One entry per normalized symbol, in order; the empty entry for a symbol whose query
  raises or gives no data.
\<close>

lemma body_failed_symbol:
  assumes "normalized = map upper (filter (\<lambda>s. s \<noteq> [])
          (map strip (case symbols of Single s \<Rightarrow> [s]
                      | Many l \<Rightarrow> map (\<lambda>x. case x of None \<Rightarrow> [] | Some s \<Rightarrow> s) l)))"
  shows "map entry_symbol (calendar_entries upper yf_Ticker today symbols num) = normalized
    \<and> (\<forall>i<length normalized.
         (query yf_Ticker num (normalized ! i) = Raises
          \<or> query yf_Ticker num (normalized ! i) = Returns None
          \<or> (\<exists>df. query yf_Ticker num (normalized ! i) = Returns (Some df)
                \<and> (df_empty df \<or> df_iterrows df = Raises
                    \<or> (\<exists>raw. df_iterrows df = Returns raw \<and> (\<forall>p\<in>set raw. fst p = None)))))
         \<longrightarrow> calendar_entries upper yf_Ticker today symbols num ! i
               = \<lparr>entry_symbol = normalized ! i, next_earnings_date = None,
                   next_earnings_estimate = None, past_earnings = []\<rparr>)"
proof (intro conjI allI impI)
  show "map entry_symbol (calendar_entries upper yf_Ticker today symbols num) = normalized"
    unfolding calendar_entries_eq assms by (simp add: comp_def symbol_entry_symbol)
next
  fix i
  assume i: "i < length normalized"
    and f: "query yf_Ticker num (normalized ! i) = Raises
          \<or> query yf_Ticker num (normalized ! i) = Returns None
          \<or> (\<exists>df. query yf_Ticker num (normalized ! i) = Returns (Some df)
                \<and> (df_empty df \<or> df_iterrows df = Raises
                    \<or> (\<exists>raw. df_iterrows df = Returns raw \<and> (\<forall>p\<in>set raw. fst p = None))))"
  have "calendar_entries upper yf_Ticker today symbols num ! i
          = symbol_entry yf_Ticker today (if num \<le> 0 then 1 else num) (normalized ! i)"
    using i unfolding calendar_entries_eq assms by simp
  also have "\<dots> = default_entry (normalized ! i)"
    by (rule symbol_entry_no_data) (use f in \<open>simp only: query_num\<close>)
  finally show "calendar_entries upper yf_Ticker today symbols num ! i
               = \<lparr>entry_symbol = normalized ! i, next_earnings_date = None,
                   next_earnings_estimate = None, past_earnings = []\<rparr>"
    by (simp add: default_entry_def)
qed

text \<open>
  The next date and the past events of a symbol whose rows all have dates and are clean:
  the least date not before today, and the first \<open>max (num - 1) 0\<close> past rows by
  descending date.
\<close>

lemma body_next_and_past:
  assumes "e \<in> set (calendar_entries upper yf_Ticker today symbols num)"
    and "query yf_Ticker num (entry_symbol e) = Returns (Some df)"
    and "\<not> df_empty df"
    and "df_iterrows df = Returns (map (\<lambda>(d, r). (Some d, r)) rows)"
    and "\<forall>p\<in>set rows. clean (snd p)"
  shows "next_earnings_date e =
           (if \<exists>d\<in>fst ` set rows. today \<le> d
            then Some (isoformat (Min {d \<in> fst ` set rows. today \<le> d})) else None)
       \<and> past_earnings e =
           map past_event (take (nat (max (num - 1) 0))
                             (sorted_desc (filter (\<lambda>(d, r). d < today) rows)))
       \<and> map date (past_earnings e) =
           map isoformat (take (nat (max (num - 1) 0))
                            (rev (sort (filter (\<lambda>d. d < today) (map fst rows)))))"
proof -
  let ?n = "if num \<le> 0 then 1 else num"
  have "query yf_Ticker ?n (entry_symbol e) = Returns (Some df)"
    using assms(2) by (simp only: query_num)
  then have "symbol_entry yf_Ticker today ?n (entry_symbol e)
      = fill_entry today ?n (default_entry (entry_symbol e)) rows"
    using assms(3,4) by (rule symbol_entry_data)
  then have e: "e = fill_entry today ?n (default_entry (entry_symbol e)) rows"
    using calendar_member [OF assms(1)] by simp
  note f = fill_entry_clean [OF assms(5), of today ?n "entry_symbol e", folded e,
      unfolded max_past_num]
  have n: "next_earnings_date e =
           (if \<exists>d\<in>fst ` set rows. today \<le> d
            then Some (isoformat (Min {d \<in> fst ` set rows. today \<le> d})) else None)"
  proof (cases "filter (\<lambda>(d, r). today \<le> d) (sort_key fst rows)")
    case Nil
    then show ?thesis using future_empty [of today rows] by (subst f) simp
  next
    case (Cons p rest)
    obtain nd nr where p: "p = (nd, nr)" by (cases p)
    have "nd = Min {d \<in> fst ` set rows. today \<le> d}" using future_head Cons p by blast
    moreover have "\<exists>d\<in>fst ` set rows. today \<le> d"
      using future_empty [of today rows] Cons by simp
    ultimately show ?thesis using Cons p by (subst f) simp
  qed
  have p: "past_earnings e = map past_event (take (nat (max (num - 1) 0))
                             (sorted_desc (filter (\<lambda>(d, r). d < today) rows)))"
    by (subst f) simp
  have "map date (past_earnings e) = map isoformat (take (nat (max (num - 1) 0))
                            (rev (sort (filter (\<lambda>d. d < today) (map fst rows)))))"
    unfolding p past_event_date
    by (simp only: take_map [symmetric] map_fst_sorted_desc map_fst_filter_date)
  with n p show ?thesis by blast
qed

subsection \<open>The defects\<close>

text \<open>
  C1. The body does what the claim says (\<open>body_failed_symbol\<close>), but the module does not
  load where no module is named \<open>datatime\<close>: the call of the specification's example, for
  \<open>AAPL\<close> and \<open>MSFT\<close> with \<open>num = 3\<close>, raises \<open>ModuleNotFoundError\<close> and returns no entry.
\<close>

theorem batch_aborts_at_import:
  "get_earnings_calendar ascii_upper standard_installation
     (Many [Some (lit ''AAPL''), Some (lit ''MSFT'')]) 3
   = Inl (ModuleNotFoundError (lit ''datatime''))"
  by (simp add: import_fails standard_installation_def)


text \<open>
  C4. On clean rows the body does what the claim says (\<open>body_next_and_past\<close>). But where
  no module is named \<open>datatime\<close> the call raises \<open>ModuleNotFoundError\<close>. And with such a
  module, a cell on which \<open>float\<close> raises \<open>OverflowError\<close> leaves the entry half-filled:
  for \<open>HUGE\<close>, with one row before today and \<open>num = 3\<close>, the entry has the next date and no
  past event.
\<close>

theorem past_rows_lost:
  "get_earnings_calendar ascii_upper standard_installation (Single (lit ''aapl'')) 3
     = Inl (ModuleNotFoundError (lit ''datatime''))
   \<and> filter (\<lambda>(d, r). d < (2025, 6, 1)) huge_rows \<noteq> []
   \<and> get_earnings_calendar ascii_upper patched_installation (Single (lit ''huge'')) 3
     = Inr [\<lparr>entry_symbol = lit ''HUGE'', next_earnings_date = Some (lit ''2026-01-29''),
             next_earnings_estimate = Some 266, past_earnings = []\<rparr>]"
proof -
  have a: "get_earnings_calendar ascii_upper standard_installation (Single (lit ''aapl'')) 3
     = Inl (ModuleNotFoundError (lit ''datatime''))"
    by (simp add: import_fails standard_installation_def)
  have b: "filter (\<lambda>(d, r). d < (2025, 6, 1)) huge_rows \<noteq> []"
    by (simp add: huge_rows_def)
  have c: "get_earnings_calendar ascii_upper patched_installation (Single (lit ''huge'')) 3
     = Inr [\<lparr>entry_symbol = lit ''HUGE'', next_earnings_date = Some (lit ''2026-01-29''),
             next_earnings_estimate = Some 266, past_earnings = []\<rparr>]"
    by code_simp
  from a b c show ?thesis by blast
qed

subsection \<open>The order of the field names\<close>

text \<open>
  C5, as stated, fails on a row that has both names and \<open>None\<close> under \<open>EPS Estimate\<close>: the
  loop passes over the \<open>None\<close> (line 142) and takes the value of \<open>epsestimate\<close>.
\<close>

theorem null_estimate_counterexample:
  "null_estimate_row (lit ''EPS Estimate'') = Some PyNone
   \<and> null_estimate_row (lit ''epsestimate'') = Some (Convertible 7)
   \<and> first_float eps_estimate_keys null_estimate_row = Returns (Some 7)
   \<and> past_earnings (append_past (default_entry (lit ''AAPL'')) [((2024, 7, 5), null_estimate_row)])
       = [\<lparr>date = lit ''2024-07-05'', eps_estimate = Some 7, eps_actual = None,
            surprise_percent = None\<rparr>]"
  by code_simp

text \<open>
  C5, amended. For every row on whose cells \<open>float\<close> raises nothing but \<open>TypeError\<close> or
  \<open>ValueError\<close>: every scan returns the value of the first name of its list that is
  present, not \<open>None\<close> and convertible, and \<open>None\<close> when there is none; the past event of the
  row carries its ISO date and three fields, each scanned by its own list, \<open>EPS Estimate\<close>,
  \<open>epsestimate\<close>, \<open>Estimate\<close>, \<open>estimate\<close> for the estimate, \<open>Reported EPS\<close>, \<open>reportedEPS\<close>,
  \<open>epsactual\<close>, \<open>actual\<close> for the actual value, \<open>Surprise(%)\<close>, \<open>surprise\<close>,
  \<open>surprise_percent\<close> for the surprise; when the row is the first future row, the next
  estimate is scanned by the first of these lists. A row that has both \<open>epsestimate\<close> and
  \<open>EPS Estimate\<close> yields the value of \<open>EPS Estimate\<close> when that is convertible, and the
  value of \<open>epsestimate\<close> when \<open>EPS Estimate\<close> is \<open>None\<close> or does not convert and
  \<open>epsestimate\<close> is convertible.
\<close>

theorem fields_scanned_in_order:
  fixes row :: "'f row" and rows :: "(date \<times> 'f row) list"
  assumes "clean row"
  shows "first_float keys row = Returns (first_usable keys row)
    \<and> append_past entry [(d, row)] =
        entry\<lparr>past_earnings := past_earnings entry @
          [\<lparr>date = isoformat d,
            eps_estimate = first_usable
              (map lit [''EPS Estimate'', ''epsestimate'', ''Estimate'', ''estimate'']) row,
            eps_actual = first_usable
              (map lit [''Reported EPS'', ''reportedEPS'', ''epsactual'', ''actual'']) row,
            surprise_percent = first_usable
              (map lit [''Surprise(%)'', ''surprise'', ''surprise_percent'']) row\<rparr>]\<rparr>
    \<and> (filter (\<lambda>(d, r). today \<le> d) (sort_key fst rows) = (d, row) # rest \<longrightarrow>
          next_earnings_estimate (fill_entry today num (default_entry symb) rows) =
            first_usable (map lit [''EPS Estimate'', ''epsestimate'', ''Estimate'', ''estimate''])
              row)
    \<and> (row (lit ''EPS Estimate'') = Some (Convertible a) \<and> row (lit ''epsestimate'') = Some c \<longrightarrow>
          first_float (map lit [''EPS Estimate'', ''epsestimate'', ''Estimate'', ''estimate'']) row
            = Returns (Some a))
    \<and> (row (lit ''EPS Estimate'') \<in> {Some PyNone, Some Inconvertible}
        \<and> row (lit ''epsestimate'') = Some (Convertible b) \<longrightarrow>
          first_float (map lit [''EPS Estimate'', ''epsestimate'', ''Estimate'', ''estimate'']) row
            = Returns (Some b))"
proof (intro conjI impI)
  show "first_float keys row = Returns (first_usable keys row)"
    using assms by (rule first_float_clean)
  have "\<forall>p\<in>set [(d, row)]. clean (snd p)" using assms by simp
  then have "append_past entry [(d, row)]
      = entry\<lparr>past_earnings := past_earnings entry @ map past_event [(d, row)]\<rparr>"
    by (rule append_past_clean)
  then show "append_past entry [(d, row)] =
        entry\<lparr>past_earnings := past_earnings entry @
          [\<lparr>date = isoformat d,
            eps_estimate = first_usable
              (map lit [''EPS Estimate'', ''epsestimate'', ''Estimate'', ''estimate'']) row,
            eps_actual = first_usable
              (map lit [''Reported EPS'', ''reportedEPS'', ''epsactual'', ''actual'']) row,
            surprise_percent = first_usable
              (map lit [''Surprise(%)'', ''surprise'', ''surprise_percent'']) row\<rparr>]\<rparr>"
    by (simp add: past_event_def eps_estimate_keys_def eps_actual_keys_def surprise_keys_def)
next
  assume "filter (\<lambda>(d, r). today \<le> d) (sort_key fst rows) = (d, row) # rest"
  then show "next_earnings_estimate (fill_entry today num (default_entry symb) rows) =
            first_usable (map lit [''EPS Estimate'', ''epsestimate'', ''Estimate'', ''estimate''])
              row"
    using assms fill_entry_next_estimate_clean [of today rows d row rest num symb]
    by (simp add: eps_estimate_keys_def)
next
  assume "row (lit ''EPS Estimate'') = Some (Convertible a) \<and> row (lit ''epsestimate'') = Some c"
  then show "first_float (map lit [''EPS Estimate'', ''epsestimate'', ''Estimate'', ''estimate''])
      row = Returns (Some a)"
    by simp
next
  assume "row (lit ''EPS Estimate'') \<in> {Some PyNone, Some Inconvertible}
        \<and> row (lit ''epsestimate'') = Some (Convertible b)"
  then show "first_float (map lit [''EPS Estimate'', ''epsestimate'', ''Estimate'', ''estimate''])
      row = Returns (Some b)"
    by auto
qed

theorem fields_scanned_in_order_witness:
  "clean both_estimates_row
   \<and> both_estimates_row (lit ''EPS Estimate'') = Some (Convertible 266)
   \<and> both_estimates_row (lit ''epsestimate'') = Some (Convertible 5)
   \<and> first_float (map lit [''EPS Estimate'', ''epsestimate'', ''Estimate'', ''estimate''])
        both_estimates_row = Returns (Some 266)
   \<and> filter (\<lambda>(d, r). (2025, 6, 1) \<le> d) (sort_key fst demo_rows)
        = [((2026, 1, 29), both_estimates_row)]
   \<and> next_earnings_estimate (fill_entry (2025, 6, 1) 3 (default_entry (lit ''AAPL'')) demo_rows)
        = first_usable (map lit [''EPS Estimate'', ''epsestimate'', ''Estimate'', ''estimate''])
            both_estimates_row
   \<and> clean null_estimate_row
   \<and> first_float (map lit [''EPS Estimate'', ''epsestimate'', ''Estimate'', ''estimate''])
        null_estimate_row = Returns (Some 7)"
proof -
  have c1: "clean both_estimates_row"
    by (auto simp: clean_def ran_def both_estimates_row_def split: if_splits)
  have c2: "clean null_estimate_row"
    by (auto simp: clean_def ran_def null_estimate_row_def split: if_splits)
  have d: "lit ''EPS Estimate'' \<noteq> lit ''epsestimate''" by (simp add: lit_def)
  have r1: "both_estimates_row (lit ''EPS Estimate'') = Some (Convertible 266)
            \<and> both_estimates_row (lit ''epsestimate'') = Some (Convertible 5)"
    using d by (simp add: both_estimates_row_def)
  have r2: "null_estimate_row (lit ''EPS Estimate'') \<in> {Some PyNone, Some Inconvertible}
            \<and> null_estimate_row (lit ''epsestimate'') = Some (Convertible 7)"
    by (simp add: null_estimate_row_def lit_def)
  have f: "filter (\<lambda>(d, r). (2025, 6, 1) \<le> d) (sort_key fst demo_rows)
        = [((2026, 1, 29), both_estimates_row)]"
    by (simp add: demo_rows_def)
  note t1 = fields_scanned_in_order [OF c1, where a = 266 and c = "Convertible 5"
      and today = "(2025, 6, 1)" and rows = demo_rows and d = "(2026, 1, 29)" and rest = "[]"
      and num = 3 and symb = "lit ''AAPL''"]
  note t2 = fields_scanned_in_order [OF c2, where b = 7]
  have a: "first_float (map lit [''EPS Estimate'', ''epsestimate'', ''Estimate'', ''estimate''])
        both_estimates_row = Returns (Some 266)"
    using t1 r1 by blast
  have b: "next_earnings_estimate (fill_entry (2025, 6, 1) 3 (default_entry (lit ''AAPL'')) demo_rows)
        = first_usable (map lit [''EPS Estimate'', ''epsestimate'', ''Estimate'', ''estimate''])
            both_estimates_row"
    using t1 f by blast
  have c: "first_float (map lit [''EPS Estimate'', ''epsestimate'', ''Estimate'', ''estimate''])
        null_estimate_row = Returns (Some 7)"
    using t2 r2 by blast
  from c1 c2 r1 f a b c show ?thesis by blast
qed

end
